theory Spec2Isabelle
  imports Main "HOL-Library.AList"
begin

section \<open>Terraform values\<close>

text \<open>
  A value of the plugin framework (\<^verbatim>\<open>types.String\<close>, \<^verbatim>\<open>types.Bool\<close>,
  \<^verbatim>\<open>types.Set\<close>) is null, unknown or known. The zero value of the Go structs is
  the null value. A set is kept as the list of its elements, in the order
  \<^verbatim>\<open>Elements()\<close> and \<^verbatim>\<open>ElementsAs\<close> hand them out.
\<close>

datatype 'a tfvalue = Null | Unknown | Value 'a

fun IsNull :: "'a tfvalue \<Rightarrow> bool" where
  "IsNull Null = True"
| "IsNull _ = False"

fun IsUnknown :: "'a tfvalue \<Rightarrow> bool" where
  "IsUnknown Unknown = True"
| "IsUnknown _ = False"

fun ValueString :: "string tfvalue \<Rightarrow> string" where
  "ValueString (Value s) = s"
| "ValueString _ = []"

fun ValueBool :: "bool tfvalue \<Rightarrow> bool" where
  "ValueBool (Value b) = b"
| "ValueBool _ = False"

fun Elements :: "'a list tfvalue \<Rightarrow> 'a list" where
  "Elements (Value xs) = xs"
| "Elements _ = []"

text \<open>
  \<^verbatim>\<open>SetValue.Equal\<close> of the plugin framework: the same value state and, for known
  sets, the same number of elements with every element of the receiver contained in
  the argument.
\<close>

definition Set_Equal :: "'a list tfvalue \<Rightarrow> 'a list tfvalue \<Rightarrow> bool" where
  "Set_Equal s other =
     (case (s, other) of
        (Value xs, Value ys) \<Rightarrow> length xs = length ys \<and> list_all (\<lambda>x. List.member ys x) xs
      | (Null, Null) \<Rightarrow> True
      | (Unknown, Unknown) \<Rightarrow> True
      | _ \<Rightarrow> False)"

section \<open>Data model\<close>

record ControlModel =
  c_ID :: "string tfvalue"
  c_Name :: "string tfvalue"
  c_Description :: "string tfvalue"
  c_Rules :: "string list tfvalue"

record SectionModel =
  s_ID :: "string tfvalue"
  s_Name :: "string tfvalue"
  s_Controls :: "ControlModel list tfvalue"

record cloudComplianceCustomFrameworkResourceModel =
  f_ID :: "string tfvalue"
  f_Name :: "string tfvalue"
  f_Description :: "string tfvalue"
  f_Active :: "bool tfvalue"
  f_Sections :: "SectionModel list tfvalue"

text \<open>The API models, with the pointer fields the code dereferences taken as present.\<close>

record ApimodelsSecurityFramework =
  fw_UUID :: string
  fw_Name :: string
  fw_Description :: string
  fw_Active :: bool

record ApimodelsControl =
  ac_UUID :: string
  ac_Name :: string
  ac_Description :: string
  ac_SectionName :: string
  ac_Requirement :: string

text \<open>A Go map with string keys is an association list with one entry per key;
  \<^verbatim>\<open>m[k] = v\<close> is \<^const>\<open>AList.update\<close>, a lookup is \<^const>\<open>map_of\<close>, and a
  \<^verbatim>\<open>range\<close> loop visits the entries in list order.\<close>

type_synonym 'v gomap = "(string \<times> 'v) list"

section \<open>Diagnostics\<close>

datatype diagnostic = DError string | DWarning string

fun is_error :: "diagnostic \<Rightarrow> bool" where
  "is_error (DError _) = True"
| "is_error (DWarning _) = False"

definition HasError :: "diagnostic list \<Rightarrow> bool" where
  "HasError ds = list_ex is_error ds"

section \<open>The remote gateway and the Terraform state as an environment\<close>

text \<open>
  Every remote call and every write to the response state is recorded as an event.
  The gateway is a parameter: each call is answered from the events issued so far and
  the call's arguments.
\<close>

datatype event =
    CreateComplianceFramework string string bool
  | GetComplianceFrameworks "string list"
  | UpdateComplianceFramework string string string bool
  | DeleteComplianceFramework string
  | CreateComplianceControl string string string string
  | GetComplianceControls "string list"
  | UpdateComplianceControl string string
  | DeleteComplianceControl "string list"
  | QueryComplianceControls string
  | QueryRule string
  | ReplaceControlRules string "string list"
  | RenameSectionComplianceFramework string string string
  | State_SetAttribute_id "string tfvalue"
  | State_Set cloudComplianceCustomFrameworkResourceModel
  | State_RemoveResource

text \<open>
  \<^verbatim>\<open>handleAPIError\<close> and \<^verbatim>\<open>validateAPIResponse\<close> are defined outside the given
  sources, so their verdicts come with the answer: \<open>CallError nf ds\<close> is a call that
  returned an error (\<open>nf\<close>: the error is the operation's NotFound type; \<open>ds\<close>: the
  diagnostics of \<^verbatim>\<open>handleAPIError\<close>), \<open>Rejected ds\<close> is a payload for which
  \<^verbatim>\<open>validateAPIResponse\<close> reported the diagnostics \<open>ds\<close>, an error among them.
  \<open>Resource0 r\<close> is an accepted payload whose \<^verbatim>\<open>Resources[0]\<close> is \<open>r\<close> (the code
  indexes it without a check); \<open>Resources rs\<close> is an accepted payload with the
  resource list \<open>rs\<close>.
\<close>

datatype 'a resource_response = CallError bool "diagnostic list" | Rejected "diagnostic list" | Resource0 'a

datatype 'a resources_response = CallErrors bool "diagnostic list" | RejectedAll "diagnostic list" | Resources "'a list"

datatype delete_response = DeleteNotFound | DeleteError "diagnostic list" | DeletePayloadErrors | DeleteOk

datatype err = Nil | Err

record client =
  api_CreateComplianceFramework :: "event list \<Rightarrow> string \<Rightarrow> string \<Rightarrow> bool \<Rightarrow> ApimodelsSecurityFramework resource_response"
  api_GetComplianceFrameworks :: "event list \<Rightarrow> string list \<Rightarrow> ApimodelsSecurityFramework resources_response"
  api_UpdateComplianceFramework :: "event list \<Rightarrow> string \<Rightarrow> string \<Rightarrow> string \<Rightarrow> bool \<Rightarrow> ApimodelsSecurityFramework resource_response"
  api_DeleteComplianceFramework :: "event list \<Rightarrow> string \<Rightarrow> delete_response"
  api_CreateComplianceControl :: "event list \<Rightarrow> string \<Rightarrow> string \<Rightarrow> string \<Rightarrow> string \<Rightarrow> ApimodelsControl resource_response"
  api_GetComplianceControls :: "event list \<Rightarrow> string list \<Rightarrow> ApimodelsControl resources_response"
  api_UpdateComplianceControl :: "event list \<Rightarrow> string \<Rightarrow> string \<Rightarrow> err"
  api_DeleteComplianceControl :: "event list \<Rightarrow> string list \<Rightarrow> err"
  api_QueryComplianceControls :: "event list \<Rightarrow> string \<Rightarrow> string list option"
  api_QueryRule :: "event list \<Rightarrow> string \<Rightarrow> string list option"
  api_ReplaceControlRules :: "event list \<Rightarrow> string \<Rightarrow> string list \<Rightarrow> err"
  api_RenameSectionComplianceFramework :: "event list \<Rightarrow> string \<Rightarrow> string \<Rightarrow> string \<Rightarrow> err"
  uuid_NewSHA1 :: "string \<Rightarrow> string \<Rightarrow> string"
  state_SetAttribute :: "event list \<Rightarrow> diagnostic list"
  state_Set :: "event list \<Rightarrow> diagnostic list"

section \<open>Identity generator\<close>

definition crowdStrikeComplianceNamespace :: string where
  "crowdStrikeComplianceNamespace = ''a1b2c3d4-e5f6-7890-abcd-ef1234567890''"

text \<open>\<^verbatim>\<open>uuid.NewSHA1(namespace, data).String()\<close> is the library's version-5 UUID; it is
  the parameter \<^const>\<open>uuid_NewSHA1\<close>.\<close>

definition generateDeterministicUUID :: "client \<Rightarrow> string \<Rightarrow> string \<Rightarrow> string" where
  "generateDeterministicUUID cl frameworkName sectionName =
     uuid_NewSHA1 cl crowdStrikeComplianceNamespace (frameworkName @ '':'' @ sectionName)"

section \<open>Tree codec\<close>

definition convertRulesToTerraformSet :: "string list \<Rightarrow> string list tfvalue" where
  "convertRulesToTerraformSet rules = Value rules"

definition convertControlsMapToTerraformSet :: "ControlModel gomap \<Rightarrow> ControlModel list tfvalue" where
  "convertControlsMapToTerraformSet controlsMap =
     Value (map (\<lambda>(k, control).
        \<lparr>c_ID = c_ID control, c_Name = c_Name control,
         c_Description = c_Description control, c_Rules = c_Rules control\<rparr>) controlsMap)"

definition convertSectionsMapToTerraformSet :: "SectionModel gomap \<Rightarrow> SectionModel list tfvalue" where
  "convertSectionsMapToTerraformSet sections =
     Value (map (\<lambda>(sectionName, section).
        \<lparr>s_ID = s_ID section, s_Name = Value sectionName, s_Controls = s_Controls section\<rparr>) sections)"

definition controlKey :: "ControlModel \<Rightarrow> string" where
  "controlKey control =
     (let key = ValueString (c_ID control)
      in if key = [] then ValueString (c_Name control) else key)"

definition convertTerraformSetToControlsMap :: "ControlModel list tfvalue \<Rightarrow> ControlModel gomap" where
  "convertTerraformSetToControlsMap controlsSet =
     (if IsNull controlsSet \<or> IsUnknown controlsSet then []
      else fold (\<lambda>control controlsMap. AList.update (controlKey control) control controlsMap)
             (Elements controlsSet) [])"

definition convertTerraformSetToSectionsMap :: "SectionModel list tfvalue \<Rightarrow> SectionModel gomap" where
  "convertTerraformSetToSectionsMap sectionsSet =
     (if IsNull sectionsSet \<or> IsUnknown sectionsSet then []
      else fold (\<lambda>section sectionsMap. AList.update (ValueString (s_Name section)) section sectionsMap)
             (Elements sectionsSet) [])"

section \<open>Validation\<close>

definition validateActiveFieldTransition :: "bool tfvalue \<Rightarrow> bool tfvalue \<Rightarrow> diagnostic list" where
  "validateActiveFieldTransition currentActive newActive =
     (if \<not> IsNull currentActive \<and> ValueBool currentActive \<and> \<not> ValueBool newActive
      then [DError ''Invalid Active Field Change''] else [])"

section \<open>Creating controls\<close>

definition emptyControl :: ControlModel where
  "emptyControl = \<lparr>c_ID = Null, c_Name = Null, c_Description = Null, c_Rules = Null\<rparr>"

text \<open>
  Every operation takes the events issued before it (\<open>h\<close>) and returns the events it
  issues itself, so the caller's trace is the concatenation.
\<close>

definition createSingleControlAndReturn ::
  "client \<Rightarrow> event list \<Rightarrow> string \<Rightarrow> string \<Rightarrow> string \<Rightarrow> ControlModel
     \<Rightarrow> ControlModel \<times> diagnostic list \<times> event list" where
  "createSingleControlAndReturn cl h frameworkID sectionName controlName control =
     (let controlDesc = ValueString (c_Description control);
          e1 = [CreateComplianceControl frameworkID sectionName controlName controlDesc]
      in case api_CreateComplianceControl cl h frameworkID sectionName controlName controlDesc of
           CallError nf ds \<Rightarrow> (emptyControl, ds, e1)
         | Rejected ds \<Rightarrow> (emptyControl, ds, e1)
         | Resource0 r \<Rightarrow>
             (let controlID = ac_UUID r;
                  created = \<lparr>c_ID = Value controlID, c_Name = Value controlName,
                             c_Description = c_Description control, c_Rules = c_Rules control\<rparr>
              in if \<not> IsNull (c_Rules control) \<and> length (Elements (c_Rules control)) > 0
                 then (let ruleIds = Elements (c_Rules control);
                           e2 = e1 @ [ReplaceControlRules controlID ruleIds]
                       in if api_ReplaceControlRules cl (h @ e1) controlID ruleIds = Err
                          then (emptyControl, [DError ''Error Assigning Rules''], e2)
                          else (created, [], e2))
                 else (created, [], e1)))"

text \<open>The inner loop body of \<^verbatim>\<open>createControlsForFramework\<close>: one control of a section.\<close>

definition createSectionControl ::
  "client \<Rightarrow> event list \<Rightarrow> string \<Rightarrow> string \<Rightarrow> string \<times> ControlModel
     \<Rightarrow> diagnostic list \<times> ControlModel gomap \<times> event list
     \<Rightarrow> diagnostic list \<times> ControlModel gomap \<times> event list" where
  "createSectionControl cl h frameworkID sectionName kc acc =
     (case kc of (controlName, control) \<Rightarrow> case acc of (diags, newControlsMap, es) \<Rightarrow>
        (case createSingleControlAndReturn cl (h @ es) frameworkID sectionName controlName control of
           (createdControl, createDiags, e1) \<Rightarrow>
             (let diags1 = diags @ createDiags
              in if HasError diags1 then (diags1, newControlsMap, es @ e1)
                 else (diags1, AList.update controlName createdControl newControlsMap, es @ e1))))"

text \<open>The outer loop body: one section. The map of sections is updated in place.\<close>

definition createSectionControls ::
  "client \<Rightarrow> event list \<Rightarrow> string \<Rightarrow> string \<times> SectionModel
     \<Rightarrow> diagnostic list \<times> SectionModel gomap \<times> event list
     \<Rightarrow> diagnostic list \<times> SectionModel gomap \<times> event list" where
  "createSectionControls cl h frameworkID ks acc =
     (case ks of (sectionName, section) \<Rightarrow> case acc of (diags, sections, es) \<Rightarrow>
        (let sectionControls = convertTerraformSetToControlsMap (s_Controls section)
         in if HasError diags then (diags, sections, es)
            else (case fold (createSectionControl cl h frameworkID sectionName) sectionControls (diags, [], es) of
                    (diags1, newControlsMap, es1) \<Rightarrow>
                      if length newControlsMap > 0 \<and> \<not> HasError diags1
                      then (diags1,
                            AList.update sectionName
                              (section\<lparr>s_Controls := convertControlsMapToTerraformSet newControlsMap\<rparr>) sections,
                            es1)
                      else (diags1, sections, es1))))"

definition createControlsForFramework ::
  "client \<Rightarrow> event list \<Rightarrow> string \<Rightarrow> SectionModel gomap
     \<Rightarrow> SectionModel gomap \<times> diagnostic list \<times> event list" where
  "createControlsForFramework cl h frameworkID sections =
     (case fold (createSectionControls cl h frameworkID) sections ([], sections, []) of
        (diags, sections1, es) \<Rightarrow> (sections1, diags, es))"

section \<open>Reading controls\<close>

definition quoted :: "string \<Rightarrow> string" where
  "quoted s = CHR 0x27 # s @ [CHR 0x27]"

definition complianceControlsByFrameworkFilter :: "string \<Rightarrow> string" where
  "complianceControlsByFrameworkFilter frameworkName =
     ''compliance_control_benchmark_name:'' @ quoted frameworkName
       @ ''+compliance_control_authority:'' @ quoted ''Custom''"

definition complianceRulesByControlFilter :: "string \<Rightarrow> string \<Rightarrow> string \<Rightarrow> string" where
  "complianceRulesByControlFilter frameworkName sectionName requirement =
     ''rule_compliance_benchmark:'' @ quoted frameworkName
       @ ''+rule_control_section:'' @ quoted sectionName
       @ ''+rule_control_requirement:'' @ quoted requirement
       @ ''+rule_domain:'' @ quoted ''CSPM'' @ ''+rule_subdomain:'' @ quoted ''IOM''"

text \<open>A query answers \<open>None\<close> for an error and the resource list otherwise (an absent
  response or payload is the empty list, which the code returns in that case too).\<close>

definition queryFrameworkControls ::
  "client \<Rightarrow> event list \<Rightarrow> string \<Rightarrow> string list \<times> diagnostic list \<times> event list" where
  "queryFrameworkControls cl h frameworkName =
     (let frameworkNameFilter = complianceControlsByFrameworkFilter frameworkName
      in case api_QueryComplianceControls cl h frameworkNameFilter of
           None \<Rightarrow> ([], [DError ''errorQueryingControls''], [QueryComplianceControls frameworkNameFilter])
         | Some resources \<Rightarrow> (resources, [], [QueryComplianceControls frameworkNameFilter]))"

definition getControlDetails ::
  "client \<Rightarrow> event list \<Rightarrow> string list \<Rightarrow> ApimodelsControl list \<times> diagnostic list \<times> event list" where
  "getControlDetails cl h controlIds =
     (case api_GetComplianceControls cl h controlIds of
        CallErrors nf ds \<Rightarrow> ([], ds, [GetComplianceControls controlIds])
      | RejectedAll ds \<Rightarrow> ([], ds, [GetComplianceControls controlIds])
      | Resources rs \<Rightarrow> (rs, [], [GetComplianceControls controlIds]))"

definition queryControlRules ::
  "client \<Rightarrow> event list \<Rightarrow> string \<Rightarrow> string \<Rightarrow> string \<Rightarrow> string list \<times> diagnostic list \<times> event list" where
  "queryControlRules cl h frameworkName sectionName requirement =
     (let rulesByControlFilter = complianceRulesByControlFilter frameworkName sectionName requirement
      in case api_QueryRule cl h rulesByControlFilter of
           None \<Rightarrow> ([], [DError ''errorQueryingRules''], [QueryRule rulesByControlFilter])
         | Some resources \<Rightarrow> (resources, [], [QueryRule rulesByControlFilter]))"

definition readControlWithRules ::
  "client \<Rightarrow> event list \<Rightarrow> ApimodelsControl \<Rightarrow> string \<Rightarrow> ControlModel \<times> diagnostic list \<times> event list" where
  "readControlWithRules cl h control frameworkName =
     (case queryControlRules cl h frameworkName (ac_SectionName control) (ac_Requirement control) of
        (ruleIDs, ruleDiags, es) \<Rightarrow>
          if HasError ruleDiags then (emptyControl, ruleDiags, es)
          else (\<lparr>c_ID = Value (ac_UUID control), c_Name = Value (ac_Name control),
                 c_Description = Value (ac_Description control),
                 c_Rules = convertRulesToTerraformSet ruleIDs\<rparr>, ruleDiags, es))"

text \<open>First loop of \<^verbatim>\<open>readControlsForFramework\<close>: organise the controls by section.\<close>

definition readApiControl ::
  "client \<Rightarrow> event list \<Rightarrow> string \<Rightarrow> ApimodelsControl
     \<Rightarrow> diagnostic list \<times> ControlModel gomap gomap \<times> event list
     \<Rightarrow> diagnostic list \<times> ControlModel gomap gomap \<times> event list" where
  "readApiControl cl h frameworkName apiControl acc =
     (case acc of (diags, sectionToControlsMap, es) \<Rightarrow>
        (let sectionName = ac_SectionName apiControl;
             controlName = ac_Name apiControl;
             m1 = (case map_of sectionToControlsMap sectionName of
                     None \<Rightarrow> AList.update sectionName [] sectionToControlsMap
                   | Some _ \<Rightarrow> sectionToControlsMap)
         in case readControlWithRules cl (h @ es) apiControl frameworkName of
              (controlModel, controlDiags, e1) \<Rightarrow>
                (let diags1 = diags @ controlDiags
                 in if HasError diags1 then (diags1, m1, es @ e1)
                    else (diags1,
                          AList.update sectionName
                            (AList.update controlName controlModel
                               (case map_of m1 sectionName of None \<Rightarrow> [] | Some cs \<Rightarrow> cs)) m1,
                          es @ e1))))"

text \<open>Second loop: one output section per group, with its identifier.\<close>

definition readSection ::
  "client \<Rightarrow> string \<Rightarrow> SectionModel gomap \<Rightarrow> diagnostic list \<Rightarrow> string \<times> ControlModel gomap
     \<Rightarrow> SectionModel gomap \<Rightarrow> SectionModel gomap" where
  "readSection cl frameworkName existingSections diags sc sectionsMap =
     (case sc of (sectionName, controls) \<Rightarrow>
        (let controlsSet = convertControlsMapToTerraformSet controls
         in if HasError diags then sectionsMap
            else (let sectionID =
                        (case map_of existingSections sectionName of
                           Some existingSection \<Rightarrow>
                             if \<not> IsNull (s_ID existingSection) \<and> \<not> IsUnknown (s_ID existingSection)
                             then s_ID existingSection
                             else Value (generateDeterministicUUID cl frameworkName sectionName)
                         | None \<Rightarrow> Value (generateDeterministicUUID cl frameworkName sectionName))
                  in AList.update sectionName
                       \<lparr>s_ID = sectionID, s_Name = Value sectionName, s_Controls = controlsSet\<rparr>
                       sectionsMap)))"

definition readControlsForFramework ::
  "client \<Rightarrow> event list \<Rightarrow> ApimodelsSecurityFramework
     \<Rightarrow> cloudComplianceCustomFrameworkResourceModel option
     \<Rightarrow> SectionModel list tfvalue \<times> diagnostic list \<times> event list" where
  "readControlsForFramework cl h framework existingState =
     (let frameworkName = fw_Name framework
      in case queryFrameworkControls cl h frameworkName of
           (controlIDs, queryDiags, e1) \<Rightarrow>
             if HasError queryDiags then (Null, queryDiags, e1)
             else if length controlIDs = 0 then (convertSectionsMapToTerraformSet [], queryDiags, e1)
             else (case getControlDetails cl (h @ e1) controlIDs of
                     (apiControls, apiControlDiags, e2) \<Rightarrow>
                       (let diags1 = queryDiags @ apiControlDiags
                        in if HasError diags1 then (Null, diags1, e1 @ e2)
                           else (case fold (readApiControl cl h frameworkName) apiControls (diags1, [], e1 @ e2) of
                                   (diags2, sectionToControlsMap, es) \<Rightarrow>
                                     (let existingSections =
                                            (case existingState of
                                               Some st \<Rightarrow>
                                                 if \<not> IsNull (f_Sections st) \<and> \<not> IsUnknown (f_Sections st)
                                                 then convertTerraformSetToSectionsMap (f_Sections st)
                                                 else []
                                             | None \<Rightarrow> []);
                                          sectionsMap =
                                            fold (readSection cl frameworkName existingSections diags2)
                                              sectionToControlsMap []
                                      in (convertSectionsMapToTerraformSet sectionsMap, diags2, es))))))"

section \<open>Reconciler\<close>

definition buildExistingControlsMap :: "SectionModel gomap \<Rightarrow> ControlModel gomap gomap" where
  "buildExistingControlsMap stateSections =
     fold (\<lambda>(sectionName, section) existingControls.
             AList.update sectionName (convertTerraformSetToControlsMap (s_Controls section)) existingControls)
       stateSections []"

definition buildControlsByIDMap :: "ControlModel gomap gomap \<Rightarrow> ControlModel gomap" where
  "buildControlsByIDMap existingControls =
     fold (\<lambda>(sectionName, sectionControls) controlsByID.
             fold (\<lambda>(k, control) controlsByID.
                     if \<not> IsNull (c_ID control) \<and> \<not> IsUnknown (c_ID control)
                     then AList.update (ValueString (c_ID control)) control controlsByID
                     else controlsByID)
               sectionControls controlsByID)
       existingControls []"

definition updateExistingControl ::
  "client \<Rightarrow> event list \<Rightarrow> ControlModel \<Rightarrow> ControlModel \<Rightarrow> string \<Rightarrow> string
     \<Rightarrow> diagnostic list \<times> event list" where
  "updateExistingControl cl h existingControl planControl controlName sectionName =
     (let controlID = ValueString (c_ID existingControl)
      in if api_UpdateComplianceControl cl h controlID controlName = Err
         then ([DError ''errorUpdatingControl''], [UpdateComplianceControl controlID controlName])
         else ([], [UpdateComplianceControl controlID controlName]))"

definition updateControlRules ::
  "client \<Rightarrow> event list \<Rightarrow> string \<Rightarrow> ControlModel \<Rightarrow> string \<Rightarrow> diagnostic list \<times> event list" where
  "updateControlRules cl h controlID planControl controlName =
     (let planRuleIds =
            (if \<not> IsNull (c_Rules planControl) \<and> length (Elements (c_Rules planControl)) > 0
             then Elements (c_Rules planControl) else [])
      in if api_ReplaceControlRules cl h controlID planRuleIds = Err
         then ([DError ''errorAssigningRules''], [ReplaceControlRules controlID planRuleIds])
         else ([], [ReplaceControlRules controlID planRuleIds]))"

text \<open>The lookup that decides between update and create for one plan control.\<close>

definition findExistingControl :: "ControlModel gomap \<Rightarrow> ControlModel \<Rightarrow> ControlModel option" where
  "findExistingControl existingControlsByID planControl =
     (if \<not> IsNull (c_ID planControl) \<and> \<not> IsUnknown (c_ID planControl)
      then map_of existingControlsByID (ValueString (c_ID planControl))
      else None)"

text \<open>The body of the inner loop of \<^verbatim>\<open>processControlUpdates\<close>: one plan control, under
  the key it has in the section's controls map.\<close>

definition processPlanControl ::
  "client \<Rightarrow> event list \<Rightarrow> string \<Rightarrow> ControlModel gomap \<Rightarrow> string \<Rightarrow> string \<times> ControlModel
     \<Rightarrow> diagnostic list \<times> ControlModel gomap \<times> event list
     \<Rightarrow> diagnostic list \<times> ControlModel gomap \<times> event list" where
  "processPlanControl cl h frameworkID existingControlsByID sectionName kc acc =
     (case kc of (controlName, planControl) \<Rightarrow> case acc of (diags, updatedControls, es) \<Rightarrow>
        (case findExistingControl existingControlsByID planControl of
           Some existingControl \<Rightarrow>
             (let controlID = ValueString (c_ID planControl)
              in case updateExistingControl cl (h @ es) existingControl planControl controlName sectionName of
                   (updateDiags, e1) \<Rightarrow>
                     (case (if \<not> Set_Equal (c_Rules existingControl) (c_Rules planControl)
                            then updateControlRules cl (h @ es @ e1) controlID planControl controlName
                            else ([], [])) of
                        (rulesDiags, e2) \<Rightarrow>
                          (diags @ updateDiags @ rulesDiags,
                           AList.update controlName
                             \<lparr>c_ID = c_ID existingControl, c_Name = Value controlName,
                              c_Description = c_Description planControl, c_Rules = c_Rules planControl\<rparr>
                             updatedControls,
                           es @ e1 @ e2)))
         | None \<Rightarrow>
             (case createSingleControlAndReturn cl (h @ es) frameworkID sectionName controlName planControl of
                (createdControl, createDiags, e1) \<Rightarrow>
                  (let diags1 = diags @ createDiags
                   in if \<not> HasError diags1
                      then (diags1, AList.update controlName createdControl updatedControls, es @ e1)
                      else (diags1, updatedControls, es @ e1)))))"

definition processPlanSection ::
  "client \<Rightarrow> event list \<Rightarrow> string \<Rightarrow> ControlModel gomap \<Rightarrow> string \<times> SectionModel
     \<Rightarrow> diagnostic list \<times> SectionModel gomap \<times> event list
     \<Rightarrow> diagnostic list \<times> SectionModel gomap \<times> event list" where
  "processPlanSection cl h frameworkID existingControlsByID ks acc =
     (case ks of (sectionName, planSection) \<Rightarrow> case acc of (diags, updatedSections, es) \<Rightarrow>
        (let planControls = convertTerraformSetToControlsMap (s_Controls planSection)
         in if HasError diags then (diags, updatedSections, es)
            else (case fold (processPlanControl cl h frameworkID existingControlsByID sectionName)
                         planControls (diags, [], es) of
                    (diags1, updatedControls, es1) \<Rightarrow>
                      if HasError diags1 then (diags1, updatedSections, es1)
                      else (diags1,
                            AList.update sectionName
                              \<lparr>s_ID = Null, s_Name = Value sectionName,
                               s_Controls = convertControlsMapToTerraformSet updatedControls\<rparr>
                              updatedSections,
                            es1))))"

definition processControlUpdates ::
  "client \<Rightarrow> event list \<Rightarrow> string \<Rightarrow> ControlModel gomap gomap \<Rightarrow> SectionModel gomap
     \<Rightarrow> SectionModel gomap \<times> diagnostic list \<times> event list" where
  "processControlUpdates cl h frameworkID existingControls planSections =
     (let existingControlsByID = buildControlsByIDMap existingControls
      in case fold (processPlanSection cl h frameworkID existingControlsByID) planSections ([], [], []) of
           (diags, updatedSections, es) \<Rightarrow> (updatedSections, diags, es))"

text \<open>The body of \<^verbatim>\<open>deleteRemovedControls\<close> for one state control.\<close>

definition controlStillExists :: "SectionModel gomap \<Rightarrow> diagnostic list \<Rightarrow> string \<Rightarrow> string \<Rightarrow> bool" where
  "controlStillExists planSections diags stateSectionName stateControlName =
     (case map_of planSections stateSectionName of
        None \<Rightarrow> False
      | Some planSection \<Rightarrow>
          (let planControls = convertTerraformSetToControlsMap (s_Controls planSection)
           in if \<not> HasError diags then map_of planControls stateControlName \<noteq> None else False))"

definition deleteStateControl ::
  "client \<Rightarrow> event list \<Rightarrow> SectionModel gomap \<Rightarrow> string \<Rightarrow> string \<times> ControlModel
     \<Rightarrow> diagnostic list \<times> event list \<Rightarrow> diagnostic list \<times> event list" where
  "deleteStateControl cl h planSections stateSectionName kc acc =
     (case kc of (stateControlName, stateControl) \<Rightarrow> case acc of (diags, es) \<Rightarrow>
        if \<not> controlStillExists planSections diags stateSectionName stateControlName
        then (let controlID = ValueString (c_ID stateControl)
              in if api_DeleteComplianceControl cl (h @ es) [controlID] = Err
                 then (diags @ [DWarning ''Error Deleting Control''], es @ [DeleteComplianceControl [controlID]])
                 else (diags, es @ [DeleteComplianceControl [controlID]]))
        else (diags, es))"

definition deleteRemovedControls ::
  "client \<Rightarrow> event list \<Rightarrow> ControlModel gomap gomap \<Rightarrow> SectionModel gomap
     \<Rightarrow> diagnostic list \<times> event list" where
  "deleteRemovedControls cl h existingControls planSections =
     fold (\<lambda>(stateSectionName, stateSection) acc.
             fold (deleteStateControl cl h planSections stateSectionName) stateSection acc)
       existingControls ([], [])"

definition updateControlsForFramework ::
  "client \<Rightarrow> event list \<Rightarrow> string \<Rightarrow> SectionModel gomap \<Rightarrow> SectionModel gomap
     \<Rightarrow> SectionModel list tfvalue \<times> diagnostic list \<times> event list" where
  "updateControlsForFramework cl h frameworkID stateSections planSections =
     (let existingControls = buildExistingControlsMap stateSections
      in case processControlUpdates cl h frameworkID existingControls planSections of
           (updatedSections, processDiags, e1) \<Rightarrow>
             if HasError processDiags then (Null, processDiags, e1)
             else (case deleteRemovedControls cl (h @ e1) existingControls planSections of
                     (deleteDiags, e2) \<Rightarrow>
                       (convertSectionsMapToTerraformSet updatedSections,
                        processDiags @ deleteDiags, e1 @ e2)))"

section \<open>Rename detector\<close>

definition detectSectionRenames :: "SectionModel gomap \<Rightarrow> SectionModel gomap \<Rightarrow> string gomap" where
  "detectSectionRenames stateSections planSections =
     fold (\<lambda>(sectionID, planSection) renames.
             case map_of stateSections sectionID of
               Some stateSection \<Rightarrow>
                 (let stateName = ValueString (s_Name stateSection);
                      planName = ValueString (s_Name planSection)
                  in if stateName \<noteq> planName then AList.update stateName planName renames else renames)
             | None \<Rightarrow> renames)
       planSections []"

definition handleSectionRenames ::
  "client \<Rightarrow> event list \<Rightarrow> string \<Rightarrow> SectionModel gomap \<Rightarrow> SectionModel gomap
     \<Rightarrow> diagnostic list \<times> event list" where
  "handleSectionRenames cl h frameworkID stateSections planSections =
     (let sectionRenames = detectSectionRenames stateSections planSections
      in fold (\<lambda>(oldSectionName, newSectionName) (diags, es).
                 if api_RenameSectionComplianceFramework cl (h @ es) frameworkID oldSectionName newSectionName = Err
                 then (diags @ [DError ''Error Renaming Section''],
                       es @ [RenameSectionComplianceFramework frameworkID oldSectionName newSectionName])
                 else (diags, es @ [RenameSectionComplianceFramework frameworkID oldSectionName newSectionName]))
           sectionRenames ([], []))"

section \<open>Lifecycle controller\<close>

definition deleteControlsForFramework ::
  "client \<Rightarrow> event list \<Rightarrow> string \<Rightarrow> diagnostic list \<times> event list" where
  "deleteControlsForFramework cl h frameworkName =
     (case queryFrameworkControls cl h frameworkName of
        (controlIds, controlDiag, e1) \<Rightarrow>
          if HasError controlDiag then (controlDiag, e1)
          else if api_DeleteComplianceControl cl (h @ e1) controlIds = Err
               then ([DWarning ''Error Deleting Controls''], e1 @ [DeleteComplianceControl controlIds])
               else ([], e1 @ [DeleteComplianceControl controlIds]))"

definition wrap ::
  "cloudComplianceCustomFrameworkResourceModel \<Rightarrow> ApimodelsSecurityFramework
     \<Rightarrow> cloudComplianceCustomFrameworkResourceModel" where
  "wrap d framework =
     d\<lparr>f_ID := Value (fw_UUID framework), f_Name := Value (fw_Name framework),
       f_Description := Value (fw_Description framework), f_Active := Value (fw_Active framework)\<rparr>"

text \<open>The loop of \<^verbatim>\<open>Create\<close> that gives every section without an identifier its derived one.\<close>

definition assignSectionID ::
  "client \<Rightarrow> string \<Rightarrow> string \<times> SectionModel \<Rightarrow> SectionModel gomap \<Rightarrow> SectionModel gomap" where
  "assignSectionID cl frameworkName ks sectionsMap =
     (case ks of (sectionName, section) \<Rightarrow>
        if IsNull (s_ID section) \<or> IsUnknown (s_ID section)
        then AList.update sectionName
               (section\<lparr>s_ID := Value (generateDeterministicUUID cl frameworkName sectionName)\<rparr>) sectionsMap
        else sectionsMap)"

text \<open>
  The four operations take the decoded plan and state of the request and return the
  diagnostics of the response and the events issued, the writes to the response state
  among them.
\<close>

definition Create ::
  "client \<Rightarrow> cloudComplianceCustomFrameworkResourceModel \<Rightarrow> diagnostic list \<times> event list" where
  "Create cl plan =
     (let name = ValueString (f_Name plan);
          description = ValueString (f_Description plan);
          active = ValueBool (f_Active plan);
          e1 = [CreateComplianceFramework name description active]
      in case api_CreateComplianceFramework cl [] name description active of
           CallError nf ds \<Rightarrow> (ds, e1)
         | Rejected ds \<Rightarrow> (ds, e1)
         | Resource0 framework \<Rightarrow>
             (let plan1 = plan\<lparr>f_ID := Value (fw_UUID framework)\<rparr>;
                  diags1 = state_SetAttribute cl e1;
                  e2 = e1 @ [State_SetAttribute_id (f_ID plan1)]
              in if HasError diags1 then (diags1, e2)
                 else if \<not> IsNull (f_Sections plan1) \<and> \<not> IsUnknown (f_Sections plan1)
                 then (let sectionsMap0 = convertTerraformSetToSectionsMap (f_Sections plan1);
                           sectionsMap1 = fold (assignSectionID cl name) sectionsMap0 sectionsMap0
                       in case createControlsForFramework cl e2 (fw_UUID framework) sectionsMap1 of
                            (sectionsMap2, createDiags, e3) \<Rightarrow>
                              (let diags2 = diags1 @ createDiags
                               in if HasError diags2 then (diags2, e2 @ e3)
                                  else (let plan2 = (wrap plan1 framework)
                                              \<lparr>f_Sections := convertSectionsMapToTerraformSet sectionsMap2\<rparr>
                                        in (diags2 @ state_Set cl (e2 @ e3), e2 @ e3 @ [State_Set plan2]))))
                 else (let plan2 = wrap plan1 framework
                       in (diags1 @ state_Set cl e2, e2 @ [State_Set plan2]))))"

definition Read ::
  "client \<Rightarrow> cloudComplianceCustomFrameworkResourceModel \<Rightarrow> diagnostic list \<times> event list" where
  "Read cl state =
     (let ids = [ValueString (f_ID state)];
          e1 = [GetComplianceFrameworks ids]
      in case api_GetComplianceFrameworks cl [] ids of
           CallErrors nf ds \<Rightarrow> if nf then (ds, e1 @ [State_RemoveResource]) else (ds, e1)
         | RejectedAll ds \<Rightarrow> (ds, e1)
         | Resources [] \<Rightarrow> ([], e1 @ [State_RemoveResource])
         | Resources (framework # rest) \<Rightarrow>
             (let state1 = wrap state framework
              in case readControlsForFramework cl e1 framework (Some state1) of
                   (sectionsMap, sectionsDiags, e2) \<Rightarrow>
                     if HasError sectionsDiags then (sectionsDiags, e1 @ e2)
                     else (let state2 =
                                 (if length (Elements sectionsMap) > 0
                                     \<or> (\<not> IsNull (f_Sections state1) \<and> \<not> IsUnknown (f_Sections state1))
                                  then state1\<lparr>f_Sections := sectionsMap\<rparr> else state1)
                           in (sectionsDiags @ state_Set cl (e1 @ e2), e1 @ e2 @ [State_Set state2]))))"

text \<open>The block of \<^verbatim>\<open>Update\<close> that reconciles the sections of the plan against the
  state, or tears all controls down when the plan has no sections.\<close>

definition updateSections ::
  "client \<Rightarrow> event list \<Rightarrow> cloudComplianceCustomFrameworkResourceModel
     \<Rightarrow> cloudComplianceCustomFrameworkResourceModel
     \<Rightarrow> cloudComplianceCustomFrameworkResourceModel \<times> diagnostic list \<times> event list" where
  "updateSections cl h plan state =
     (if \<not> IsNull (f_Sections plan) \<and> \<not> IsUnknown (f_Sections plan)
      then (let planSections = convertTerraformSetToSectionsMap (f_Sections plan);
                stateSections =
                  (if \<not> IsNull (f_Sections state) \<and> \<not> IsUnknown (f_Sections state)
                   then convertTerraformSetToSectionsMap (f_Sections state) else [])
            in case updateControlsForFramework cl h (ValueString (f_ID plan)) stateSections planSections of
                 (updatedPlanSections, updateDiags, e2) \<Rightarrow>
                   (plan\<lparr>f_Sections := updatedPlanSections\<rparr>, updateDiags, e2))
      else if \<not> IsNull (f_Sections state) \<and> \<not> IsUnknown (f_Sections state)
      then (case deleteControlsForFramework cl h (ValueString (f_Name plan)) of
              (deleteDiags, e2) \<Rightarrow> (plan, deleteDiags, e2))
      else (plan, [], []))"

text \<open>The end of \<^verbatim>\<open>Update\<close>: wrap the API response, read the controls back when
  sections are configured, and set the state.\<close>

definition readBackAndSet ::
  "client \<Rightarrow> event list \<Rightarrow> ApimodelsSecurityFramework
     \<Rightarrow> cloudComplianceCustomFrameworkResourceModel
     \<Rightarrow> cloudComplianceCustomFrameworkResourceModel \<Rightarrow> diagnostic list
     \<Rightarrow> diagnostic list \<times> event list" where
  "readBackAndSet cl h framework plan1 state diags1 =
     (let plan2 = wrap plan1 framework
      in if \<not> IsNull (f_Sections plan2) \<and> \<not> IsUnknown (f_Sections plan2)
         then (case readControlsForFramework cl h framework (Some state) of
                 (sectionsSet, sectionsDiags, e3) \<Rightarrow>
                   (let diags2 = diags1 @ sectionsDiags
                    in if HasError diags2 then (diags2, e3)
                       else (diags2 @ state_Set cl (h @ e3),
                             e3 @ [State_Set (plan2\<lparr>f_Sections := sectionsSet\<rparr>)])))
         else (diags1 @ state_Set cl h, [State_Set plan2]))"

definition Update ::
  "client \<Rightarrow> cloudComplianceCustomFrameworkResourceModel \<Rightarrow> cloudComplianceCustomFrameworkResourceModel
     \<Rightarrow> diagnostic list \<times> event list" where
  "Update cl plan state =
     (let diags0 = validateActiveFieldTransition (f_Active state) (f_Active plan)
      in if HasError diags0 then (diags0, [])
         else
           (let id = ValueString (f_ID plan);
                name = ValueString (f_Name plan);
                description = ValueString (f_Description plan);
                active = ValueBool (f_Active plan);
                e1 = [UpdateComplianceFramework id name description active]
            in case api_UpdateComplianceFramework cl [] id name description active of
                 CallError nf ds \<Rightarrow> (diags0 @ ds, e1)
               | Rejected ds \<Rightarrow> (diags0 @ ds, e1)
               | Resource0 framework \<Rightarrow>
                   (case updateSections cl e1 plan state of
                      (plan1, sectionDiags, e2) \<Rightarrow>
                        (let diags1 = diags0 @ sectionDiags
                         in if HasError diags1 then (diags1, e1 @ e2)
                            else (case readBackAndSet cl (e1 @ e2) framework plan1 state diags1 of
                                    (diags2, e3) \<Rightarrow> (diags2, e1 @ e2 @ e3))))))"

definition Delete ::
  "client \<Rightarrow> cloudComplianceCustomFrameworkResourceModel \<Rightarrow> diagnostic list \<times> event list" where
  "Delete cl state =
     (case deleteControlsForFramework cl [] (ValueString (f_Name state)) of
        (diags1, e1) \<Rightarrow>
          if HasError diags1 then (diags1, e1)
          else (let id = ValueString (f_ID state);
                    e2 = e1 @ [DeleteComplianceFramework id]
                in case api_DeleteComplianceFramework cl e1 id of
                     DeleteNotFound \<Rightarrow> (diags1, e2)
                   | DeleteError ds \<Rightarrow> (diags1 @ ds, e2)
                   | DeletePayloadErrors \<Rightarrow> (diags1 @ [DError ''errorDeletingFramework''], e2)
                   | DeleteOk \<Rightarrow> (diags1, e2)))"

section \<open>Classifying events\<close>

fun is_rename :: "event \<Rightarrow> bool" where
  "is_rename (RenameSectionComplianceFramework _ _ _) = True"
| "is_rename _ = False"

fun is_control_operation :: "event \<Rightarrow> bool" where
  "is_control_operation (CreateComplianceControl _ _ _ _) = True"
| "is_control_operation (ReplaceControlRules _ _) = True"
| "is_control_operation _ = False"

definition quiet :: "event list \<Rightarrow> bool" where
  "quiet es = list_all (\<lambda>e. \<not> is_rename e) es"


fun is_control_create :: "event \<Rightarrow> bool" where
  "is_control_create (CreateComplianceControl _ _ _ _) = True"
| "is_control_create _ = False"

fun is_control_update :: "event \<Rightarrow> bool" where
  "is_control_update (UpdateComplianceControl _ _) = True"
| "is_control_update _ = False"

fun is_control_delete :: "event \<Rightarrow> bool" where
  "is_control_delete (DeleteComplianceControl _) = True"
| "is_control_delete _ = False"

fun is_rule_replacement :: "event \<Rightarrow> bool" where
  "is_rule_replacement (ReplaceControlRules _ _) = True"
| "is_rule_replacement _ = False"

section \<open>A concrete gateway and state for the examples\<close>

definition exampleControl :: ApimodelsControl where
  "exampleControl = \<lparr>ac_UUID = ''X'', ac_Name = ''A'', ac_Description = ''d'',
                      ac_SectionName = ''S1'', ac_Requirement = ''1''\<rparr>"

text \<open>Every call succeeds; a created control gets the identifier \<open>N\<close>; the framework
  has one control \<open>X\<close> named \<open>A\<close> in section \<open>S1\<close> with the rule \<open>r1\<close>.\<close>

definition exampleClient :: client where
  "exampleClient = \<lparr>
     api_CreateComplianceFramework = (\<lambda>h n d a. Resource0 \<lparr>fw_UUID = ''F'', fw_Name = n, fw_Description = d, fw_Active = a\<rparr>),
     api_GetComplianceFrameworks = (\<lambda>h ids. Resources [\<lparr>fw_UUID = ''F'', fw_Name = ''fw'', fw_Description = ''d'', fw_Active = False\<rparr>]),
     api_UpdateComplianceFramework = (\<lambda>h i n d a. Resource0 \<lparr>fw_UUID = i, fw_Name = n, fw_Description = d, fw_Active = a\<rparr>),
     api_DeleteComplianceFramework = (\<lambda>h i. DeleteOk),
     api_CreateComplianceControl = (\<lambda>h f s n d. Resource0 \<lparr>ac_UUID = ''N'', ac_Name = n, ac_Description = d, ac_SectionName = s, ac_Requirement = ''1''\<rparr>),
     api_GetComplianceControls = (\<lambda>h ids. Resources [exampleControl]),
     api_UpdateComplianceControl = (\<lambda>h i n. Nil),
     api_DeleteComplianceControl = (\<lambda>h ids. Nil),
     api_QueryComplianceControls = (\<lambda>h f. Some [''X'']),
     api_QueryRule = (\<lambda>h f. Some [''r1'']),
     api_ReplaceControlRules = (\<lambda>h i rs. Nil),
     api_RenameSectionComplianceFramework = (\<lambda>h f a b. Nil),
     uuid_NewSHA1 = (\<lambda>ns d. ns @ ''/'' @ d),
     state_SetAttribute = (\<lambda>h. []),
     state_Set = (\<lambda>h. [])\<rparr>"

definition exampleState :: cloudComplianceCustomFrameworkResourceModel where
  "exampleState = \<lparr>f_ID = Value ''F'', f_Name = Value ''fw'', f_Description = Value ''d'',
     f_Active = Value True,
     f_Sections = Value [\<lparr>s_ID = Value ''sid'', s_Name = Value ''S1'',
        s_Controls = Value [\<lparr>c_ID = Value ''X'', c_Name = Value ''A'',
                             c_Description = Value ''d'', c_Rules = Value [''r1'']\<rparr>]\<rparr>]\<rparr>"

section \<open>No operation renames a section\<close>

lemma quiet_simps [simp]:
  "quiet []" "quiet (es @ es') = (quiet es \<and> quiet es')" "quiet (e # es) = (\<not> is_rename e \<and> quiet es)"
  by (auto simp: quiet_def)

lemma fold_invariant:
  assumes "\<And>x acc. P acc \<Longrightarrow> P (f x acc)" and "P acc"
  shows "P (fold f xs acc)"
  using assms(2) by (induction xs arbitrary: acc) (auto intro: assms(1))

lemma quiet_createSingle: "quiet (snd (snd (createSingleControlAndReturn cl h f s n c)))"
  by (simp add: createSingleControlAndReturn_def Let_def split: resource_response.split)

lemma quiet_createSectionControl:
  "quiet (snd (snd acc)) \<Longrightarrow> quiet (snd (snd (createSectionControl cl h f s kc acc)))"
  using quiet_createSingle[of cl "h @ snd (snd acc)" f s "fst kc" "snd kc"]
  by (cases acc; cases kc) (auto simp: createSectionControl_def Let_def split: prod.split)

lemma quiet_createSectionControls:
  "quiet (snd (snd acc)) \<Longrightarrow> quiet (snd (snd (createSectionControls cl h f ks acc)))"
proof (cases acc; cases ks)
  fix d m es sectionName sec
  assume q: "quiet (snd (snd acc))" and acc: "acc = (d, m, es)" and ks: "ks = (sectionName, sec)"
  have "quiet (snd (snd (fold (createSectionControl cl h f sectionName)
           (convertTerraformSetToControlsMap (s_Controls sec)) (d, [], es))))"
    by (rule fold_invariant[where P = "\<lambda>a. quiet (snd (snd a))"]) (use q acc in \<open>auto intro: quiet_createSectionControl\<close>)
  then show ?thesis using q acc ks
    by (auto simp: createSectionControls_def Let_def split: prod.split)
qed

lemma quiet_createControlsForFramework:
  "quiet (snd (snd (createControlsForFramework cl h f sections)))"
proof -
  have "quiet (snd (snd (fold (createSectionControls cl h f) sections ([], sections, []))))"
    by (rule fold_invariant[where P = "\<lambda>a. quiet (snd (snd a))"]) (auto intro: quiet_createSectionControls)
  then show ?thesis by (auto simp: createControlsForFramework_def split: prod.split)
qed

lemma quiet_queryFrameworkControls: "quiet (snd (snd (queryFrameworkControls cl h n)))"
  by (simp add: queryFrameworkControls_def Let_def split: option.split)

lemma quiet_getControlDetails: "quiet (snd (snd (getControlDetails cl h ids)))"
  by (simp add: getControlDetails_def split: resources_response.split)

lemma quiet_readControlWithRules: "quiet (snd (snd (readControlWithRules cl h c n)))"
  by (simp add: readControlWithRules_def queryControlRules_def Let_def split: option.split)

lemma quiet_readApiControl:
  "quiet (snd (snd acc)) \<Longrightarrow> quiet (snd (snd (readApiControl cl h n c acc)))"
  using quiet_readControlWithRules[of cl "h @ snd (snd acc)" c n]
  by (cases acc) (auto simp: readApiControl_def Let_def split: prod.split)

lemma quiet_readControlsForFramework:
  "quiet (snd (snd (readControlsForFramework cl h framework st)))"
proof -
  obtain ids qd e1 where q: "queryFrameworkControls cl h (fw_Name framework) = (ids, qd, e1)"
    by (cases "queryFrameworkControls cl h (fw_Name framework)") auto
  obtain cs ad e2 where g: "getControlDetails cl (h @ e1) ids = (cs, ad, e2)"
    by (cases "getControlDetails cl (h @ e1) ids") auto
  have q1: "quiet e1" using quiet_queryFrameworkControls[of cl h "fw_Name framework"] q by simp
  have q2: "quiet e2" using quiet_getControlDetails[of cl "h @ e1" ids] g by simp
  have "quiet (snd (snd (fold (readApiControl cl h (fw_Name framework)) cs (qd @ ad, [], e1 @ e2))))"
    by (rule fold_invariant[where P = "\<lambda>a. quiet (snd (snd a))"]) (use q1 q2 in \<open>auto intro: quiet_readApiControl\<close>)
  then show ?thesis using q g q1 q2
    by (auto simp: readControlsForFramework_def Let_def split: prod.split)
qed


lemma quiet_processPlanControl:
  "quiet (snd (snd acc)) \<Longrightarrow> quiet (snd (snd (processPlanControl cl h f byID s kc acc)))"
  using quiet_createSingle[of cl "h @ snd (snd acc)" f s "fst kc" "snd kc"]
  by (cases acc; cases kc)
     (auto simp: processPlanControl_def updateExistingControl_def updateControlRules_def Let_def
           split: prod.split option.split)

lemma quiet_processPlanSection:
  "quiet (snd (snd acc)) \<Longrightarrow> quiet (snd (snd (processPlanSection cl h f byID ks acc)))"
proof (cases acc; cases ks)
  fix d m es sectionName sec
  assume q: "quiet (snd (snd acc))" and acc: "acc = (d, m, es)" and ks: "ks = (sectionName, sec)"
  have "quiet (snd (snd (fold (processPlanControl cl h f byID sectionName)
           (convertTerraformSetToControlsMap (s_Controls sec)) (d, [], es))))"
    by (rule fold_invariant[where P = "\<lambda>a. quiet (snd (snd a))"]) (use q acc in \<open>auto intro: quiet_processPlanControl\<close>)
  then show ?thesis using q acc ks
    by (auto simp: processPlanSection_def Let_def split: prod.split)
qed

lemma quiet_processControlUpdates:
  "quiet (snd (snd (processControlUpdates cl h f existing planSections)))"
proof -
  have "quiet (snd (snd (fold (processPlanSection cl h f (buildControlsByIDMap existing)) planSections ([], [], []))))"
    by (rule fold_invariant[where P = "\<lambda>a. quiet (snd (snd a))"]) (auto intro: quiet_processPlanSection)
  then show ?thesis by (auto simp: processControlUpdates_def Let_def split: prod.split)
qed

lemma quiet_deleteStateControl:
  "quiet (snd acc) \<Longrightarrow> quiet (snd (deleteStateControl cl h planSections s kc acc))"
  by (cases acc; cases kc) (auto simp: deleteStateControl_def Let_def)

lemma quiet_deleteRemovedControls:
  "quiet (snd (deleteRemovedControls cl h existing planSections))"
  unfolding deleteRemovedControls_def
proof (rule fold_invariant[where P = "\<lambda>a. quiet (snd a)"])
  fix x :: "string \<times> ControlModel gomap" and acc :: "diagnostic list \<times> event list"
  assume "quiet (snd acc)"
  then have "quiet (snd (fold (deleteStateControl cl h planSections (fst x)) (snd x) acc))"
    by (rule fold_invariant[where P = "\<lambda>a. quiet (snd a)", rotated]) (rule quiet_deleteStateControl)
  then show "quiet (snd ((case x of (stateSectionName, stateSection) \<Rightarrow>
                 fold (deleteStateControl cl h planSections stateSectionName) stateSection) acc))"
    by (cases x) simp
qed simp

lemma quiet_updateControlsForFramework:
  "updateControlsForFramework cl h f stateSections planSections = (u, d, es) \<Longrightarrow> quiet es"
proof -
  assume a: "updateControlsForFramework cl h f stateSections planSections = (u, d, es)"
  obtain us pd e1 where p: "processControlUpdates cl h f (buildExistingControlsMap stateSections) planSections = (us, pd, e1)"
    by (cases "processControlUpdates cl h f (buildExistingControlsMap stateSections) planSections") auto
  obtain dd e2 where dl: "deleteRemovedControls cl (h @ e1) (buildExistingControlsMap stateSections) planSections = (dd, e2)"
    by (cases "deleteRemovedControls cl (h @ e1) (buildExistingControlsMap stateSections) planSections") auto
  have "quiet e1" using quiet_processControlUpdates[of cl h f "buildExistingControlsMap stateSections" planSections] p by simp
  moreover have "quiet e2" using quiet_deleteRemovedControls[of cl "h @ e1" "buildExistingControlsMap stateSections" planSections] dl by simp
  ultimately show ?thesis using a p dl
    by (auto simp: updateControlsForFramework_def Let_def split: if_splits)
qed

lemma quiet_deleteControlsForFramework:
  "deleteControlsForFramework cl h n = (d, es) \<Longrightarrow> quiet es"
  using quiet_queryFrameworkControls[of cl h n]
  by (auto simp: deleteControlsForFramework_def split: prod.splits if_splits)

lemma quiet_createControlsForFramework':
  "createControlsForFramework cl h f sections = (m, d, es) \<Longrightarrow> quiet es"
  using quiet_createControlsForFramework[of cl h f sections] by simp

lemma quiet_readControlsForFramework':
  "readControlsForFramework cl h fw st = (s, d, es) \<Longrightarrow> quiet es"
  using quiet_readControlsForFramework[of cl h fw st] by simp

lemma quiet_Create: "quiet (snd (Create cl plan))"
  unfolding Create_def Let_def
  by (auto split: resource_response.split prod.split dest: quiet_createControlsForFramework')

lemma quiet_Read: "quiet (snd (Read cl state))"
  unfolding Read_def Let_def
  by (auto split: resources_response.split prod.split list.split dest: quiet_readControlsForFramework')

lemma quiet_Delete: "quiet (snd (Delete cl state))"
  unfolding Delete_def Let_def
  by (auto split: delete_response.split prod.split dest: quiet_deleteControlsForFramework)

lemma quiet_updateSections: "updateSections cl h plan state = (p, d, es) \<Longrightarrow> quiet es"
  unfolding updateSections_def Let_def
  by (auto split: if_splits prod.splits dest: quiet_updateControlsForFramework quiet_deleteControlsForFramework)

lemma quiet_readBackAndSet: "readBackAndSet cl h fw p st d = (d', es) \<Longrightarrow> quiet es"
  unfolding readBackAndSet_def Let_def
  by (auto split: if_splits prod.splits dest: quiet_readControlsForFramework')

lemma quiet_Update: "quiet (snd (Update cl plan state))"
  unfolding Update_def Let_def
  by (auto split: resource_response.split prod.split dest: quiet_updateSections quiet_readBackAndSet)

lemma set_update_subset: "set (AList.update k v al) \<subseteq> insert (k, v) (set al)"
  by (induction al) auto

lemma sectionsMap_key_is_name:
  "(k, v) \<in> set (convertTerraformSetToSectionsMap sectionsSet) \<Longrightarrow> ValueString (s_Name v) = k"
proof -
  have inv: "\<forall>(k, v) \<in> set (fold (\<lambda>sec m. AList.update (ValueString (s_Name sec)) sec m) xs m0).
               ValueString (s_Name v) = k"
    if "\<forall>(k, v) \<in> set m0. ValueString (s_Name v) = k" for xs and m0 :: "SectionModel gomap"
    using that
  proof (induction xs arbitrary: m0)
    case Nil
    then show ?case by simp
  next
    case (Cons x xs)
    have "\<forall>(k, v) \<in> set (AList.update (ValueString (s_Name x)) x m0). ValueString (s_Name v) = k"
      using Cons.prems set_update_subset[of "ValueString (s_Name x)" x m0] by auto
    then show ?case using Cons.IH by simp
  qed
  assume "(k, v) \<in> set (convertTerraformSetToSectionsMap sectionsSet)"
  then show ?thesis
    using inv[of "[]" "Elements sectionsSet"]
    by (auto simp: convertTerraformSetToSectionsMap_def split: if_splits)
qed

lemma detectSectionRenames_keyed_by_name:
  assumes st: "\<And>k v. (k, v) \<in> set stateSections \<Longrightarrow> ValueString (s_Name v) = k"
      and pl: "\<And>k v. (k, v) \<in> set planSections \<Longrightarrow> ValueString (s_Name v) = k"
  shows "detectSectionRenames stateSections planSections = []"
proof -
  have "fold (\<lambda>(sectionID, planSection) renames.
             case map_of stateSections sectionID of
               Some stateSection \<Rightarrow>
                 (let stateName = ValueString (s_Name stateSection);
                      planName = ValueString (s_Name planSection)
                  in if stateName \<noteq> planName then AList.update stateName planName renames else renames)
             | None \<Rightarrow> renames) xs [] = []"
    if "set xs \<subseteq> set planSections" for xs
    using that
  proof (induction xs)
    case Nil
    then show ?case by simp
  next
    case (Cons x xs)
    obtain k pv where x: "x = (k, pv)" by (cases x)
    have pk: "ValueString (s_Name pv) = k" using Cons.prems x pl by auto
    have "(case map_of stateSections k of
               Some stateSection \<Rightarrow>
                 (let stateName = ValueString (s_Name stateSection);
                      planName = ValueString (s_Name pv)
                  in if stateName \<noteq> planName then AList.update stateName planName [] else [])
             | None \<Rightarrow> []) = []"
      using pk st[OF map_of_SomeD] by (auto split: option.split)
    then show ?case using Cons x by simp
  qed
  then show ?thesis by (simp add: detectSectionRenames_def)
qed

text \<open>
  Claim C10. On section maps produced by \<^const>\<open>convertTerraformSetToSectionsMap\<close> every
  value's name is its key, so \<^const>\<open>detectSectionRenames\<close> returns the empty rename map
  and \<^const>\<open>handleSectionRenames\<close> issues no call; and none of Create, Read, Update and
  Delete issues a bulk section-rename call, whatever the gateway answers.
\<close>

theorem no_section_rename_call:
  "detectSectionRenames (convertTerraformSetToSectionsMap stateSet)
       (convertTerraformSetToSectionsMap planSet) = []
   \<and> handleSectionRenames cl h frameworkID (convertTerraformSetToSectionsMap stateSet)
       (convertTerraformSetToSectionsMap planSet) = ([], [])
   \<and> quiet (snd (Create cl plan)) \<and> quiet (snd (Read cl state))
   \<and> quiet (snd (Update cl plan state)) \<and> quiet (snd (Delete cl state))"
proof -
  have d: "detectSectionRenames (convertTerraformSetToSectionsMap stateSet)
       (convertTerraformSetToSectionsMap planSet) = []"
    by (rule detectSectionRenames_keyed_by_name) (erule sectionsMap_key_is_name)+
  then have "handleSectionRenames cl h frameworkID (convertTerraformSetToSectionsMap stateSet)
       (convertTerraformSetToSectionsMap planSet) = ([], [])"
    by (simp add: handleSectionRenames_def)
  with d show ?thesis
    using quiet_Create quiet_Read quiet_Update quiet_Delete by blast
qed

theorem no_section_rename_call_witness:
  "detectSectionRenames (convertTerraformSetToSectionsMap (f_Sections exampleState))
       (convertTerraformSetToSectionsMap (f_Sections exampleState)) = []
   \<and> quiet (snd (Update exampleClient exampleState exampleState))"
  using no_section_rename_call[of "f_Sections exampleState" "f_Sections exampleState"
          exampleClient "[]" "''F''" exampleState exampleState]
  by blast

section \<open>The monotonic active flag\<close>

text \<open>
  Claim C5. An update that would take the active flag from true to false is rejected by
  the validation with an error and issues no event at all (no remote call, no state
  write). From false, the validation reports nothing, whatever the new value, and the
  update goes on to its first remote call, the framework update.
\<close>

theorem update_rejects_deactivation:
  "(f_Active state = Value True \<and> \<not> ValueBool (f_Active plan)
      \<longrightarrow> HasError (fst (Update cl plan state)) \<and> snd (Update cl plan state) = [])
   \<and> (f_Active state = Value False
      \<longrightarrow> validateActiveFieldTransition (f_Active state) (f_Active plan) = []
        \<and> (\<exists>rest. snd (Update cl plan state) =
               UpdateComplianceFramework (ValueString (f_ID plan)) (ValueString (f_Name plan))
                 (ValueString (f_Description plan)) (ValueBool (f_Active plan)) # rest))"
proof (intro conjI impI)
  assume a: "f_Active state = Value True \<and> \<not> ValueBool (f_Active plan)"
  then have v: "validateActiveFieldTransition (f_Active state) (f_Active plan) = [DError ''Invalid Active Field Change'']"
    by (simp add: validateActiveFieldTransition_def)
  show "HasError (fst (Update cl plan state))"
    by (simp add: Update_def v HasError_def)
  show "snd (Update cl plan state) = []"
    by (simp add: Update_def v HasError_def)
next
  assume a: "f_Active state = Value False"
  then show v: "validateActiveFieldTransition (f_Active state) (f_Active plan) = []"
    by (simp add: validateActiveFieldTransition_def)
  show "\<exists>rest. snd (Update cl plan state) =
               UpdateComplianceFramework (ValueString (f_ID plan)) (ValueString (f_Name plan))
                 (ValueString (f_Description plan)) (ValueBool (f_Active plan)) # rest"
    unfolding Update_def v Let_def
    by (simp add: HasError_def split: resource_response.split prod.split)
qed

theorem update_rejects_deactivation_witness:
  "f_Active exampleState = Value True
   \<and> \<not> ValueBool (f_Active (exampleState\<lparr>f_Active := Value False\<rparr>))
   \<and> Update exampleClient (exampleState\<lparr>f_Active := Value False\<rparr>) exampleState
       = ([DError ''Invalid Active Field Change''], [])
   \<and> f_Active (exampleState\<lparr>f_Active := Value False\<rparr>) = Value False
   \<and> hd (snd (Update exampleClient exampleState (exampleState\<lparr>f_Active := Value False\<rparr>)))
       = UpdateComplianceFramework ''F'' ''fw'' ''d'' True"
  using update_rejects_deactivation[of exampleState "exampleState\<lparr>f_Active := Value False\<rparr>" exampleClient]
        update_rejects_deactivation[of "exampleState\<lparr>f_Active := Value False\<rparr>" exampleState exampleClient]
  by (auto simp: exampleState_def Update_def validateActiveFieldTransition_def HasError_def)


end
